theory Spec2Isabelle
  imports Complex_Main
begin

section \<open>Data model of the serving layer (api/index.py, main.py)\<close>

text \<open>
  Exceptions are values. \<open>HTTPException\<close> is the one the endpoint raises itself;
  \<open>AttributeError\<close> is what Python raises for a method call on \<open>None\<close>;
  \<open>LibraryError\<close> stands for any exception raised inside the presidio engines.
\<close>

datatype error =
    HTTPException nat string
  | AttributeError string
  | LibraryError string

text \<open>
  The fields of presidio's \<open>RecognizerResult\<close> that the source reads. The score is a
  Python float; its type is left abstract (\<open>'s\<close>) and the builtin \<open>round(\<cdot>, 4)\<close> is a
  parameter \<open>round4\<close> of the functions that call it.
\<close>

record 's RecognizerResult =
  rr_entity_type :: string
  rr_start :: int
  rr_end :: int
  rr_score :: 's

text \<open>class RedactRequest(BaseModel), after validation. A \<open>char\<close> of the model is one
  character of a Python \<open>str\<close>, the unit that \<open>len\<close> and slicing count.\<close>

record RedactRequest =
  req_text :: string
  entities :: "string list option"
  mask_char :: string
  anonymize :: bool

text \<open>
  The JSON body of a request before the schema defaults are applied: \<open>text\<close> is
  required, the other three fields may be omitted.
\<close>

record request_body =
  body_text :: string
  body_entities :: "string list option"
  body_mask_char :: "string option"
  body_anonymize :: "bool option"

definition RedactRequest_of_body :: "request_body \<Rightarrow> RedactRequest" where
  "RedactRequest_of_body b =
     \<lparr> req_text = body_text b,
       entities = body_entities b,
       mask_char = (case body_mask_char b of None \<Rightarrow> ''*'' | Some m \<Rightarrow> m),
       anonymize = (case body_anonymize b of None \<Rightarrow> True | Some a \<Rightarrow> a) \<rparr>"

text \<open>class EntityResult(BaseModel); main.py builds dicts with the same five keys.\<close>

record 's EntityResult =
  er_type :: string
  er_start :: int
  er_end :: int
  er_score :: 's
  er_text :: string

datatype meta_value = MStr string | MInt int

record 's RedactResponse =
  original_length :: nat
  redacted_text :: string
  entities_detected :: "'s EntityResult list"
  metadata :: "(string \<times> meta_value) list"

text \<open>\<open>OperatorConfig(name, params)\<close> and the \<open>operators\<close> dict handed to the anonymizer.\<close>

datatype param_value = PStr string | PInt int | PBool bool

datatype OperatorConfig = OperatorConfig string "(string \<times> param_value) list"

type_synonym operator_dict = "(string \<times> OperatorConfig) list"

text \<open>
  The two presidio engines are external: \<open>analyzer.analyze(text, entities, language)\<close>
  and \<open>anonymizer.anonymize(text, analyzer_results, operators).text\<close>. Each is a
  function that may raise. The module globals \<open>analyzer\<close> and \<open>anonymizer\<close> hold an
  engine or \<open>None\<close>.
\<close>

type_synonym 's analyzer_engine =
  "string \<Rightarrow> string list option \<Rightarrow> error + 's RecognizerResult list"

type_synonym 's anonymizer_engine =
  "string \<Rightarrow> 's RecognizerResult list \<Rightarrow> operator_dict \<Rightarrow> error + string"

record 's globals =
  analyzer :: "'s analyzer_engine option"
  anonymizer :: "'s anonymizer_engine option"

text \<open>
  Module initialisation of api/index.py: the \<open>try\<close> block builds both engines; the
  \<open>except\<close> branch sets both globals to \<open>None\<close>.
\<close>

definition load_engines ::
  "error + ('s analyzer_engine \<times> 's anonymizer_engine) \<Rightarrow> 's globals" where
  "load_engines created =
     (case created of
        Inr (an, anon) \<Rightarrow> \<lparr> analyzer = Some an, anonymizer = Some anon \<rparr>
      | Inl e \<Rightarrow> \<lparr> analyzer = None, anonymizer = None \<rparr>)"

section \<open>Python helpers\<close>

text \<open>\<open>xs[i:j]\<close>: negative indices count from the end, out-of-range ones are clipped.\<close>

definition py_slice :: "'a list \<Rightarrow> int \<Rightarrow> int \<Rightarrow> 'a list" where
  "py_slice xs i j =
     (let n = int (length xs);
          lo = (if i < 0 then max (i + n) 0 else min i n);
          hi = (if j < 0 then max (j + n) 0 else min j n)
      in take (nat (hi - lo)) (drop (nat lo) xs))"

section \<open>The endpoints of api/index.py\<close>

record health =
  status :: string
  nlp_engine_loaded :: bool

definition health_check :: "'s globals \<Rightarrow> health" where
  "health_check g =
     \<lparr> status = ''operational'', nlp_engine_loaded = (analyzer g \<noteq> None) \<rparr>"

text \<open>
  The operator choice, written out identically in \<open>redact_pii\<close> and in \<open>main\<close>: the
  literal \<open><PII>\<close> unless the mask string is non-empty and of length one.
\<close>

definition operators :: "string \<Rightarrow> operator_dict" where
  "operators m =
     (if m \<noteq> [] \<and> length m = 1
      then [(''DEFAULT'', OperatorConfig ''mask''
               [(''masking_char'', PStr m), (''chars_to_mask'', PInt 100),
                (''from_end'', PBool True)])]
      else [(''DEFAULT'', OperatorConfig ''replace'' [(''new_value'', PStr ''<PII>'')])])"

text \<open>The normalisation loop: one entry per analyzer result, in the analyzer's order.\<close>

definition entity_of :: "('s \<Rightarrow> 's) \<Rightarrow> string \<Rightarrow> 's RecognizerResult \<Rightarrow> 's EntityResult" where
  "entity_of round4 txt res =
     \<lparr> er_type = rr_entity_type res,
       er_start = rr_start res,
       er_end = rr_end res,
       er_score = round4 (rr_score res),
       er_text = py_slice txt (rr_start res) (rr_end res) \<rparr>"

fun structured_entities ::
  "('s \<Rightarrow> 's) \<Rightarrow> string \<Rightarrow> 's RecognizerResult list \<Rightarrow> 's EntityResult list" where
  "structured_entities round4 txt [] = []"
| "structured_entities round4 txt (res # rest) =
     entity_of round4 txt res # structured_entities round4 txt rest"

text \<open>
  The anonymization phase, written out identically in \<open>redact_pii\<close> and in \<open>main\<close>:
  skipped when the flag is off, so that the final text is the input; a call on a \<open>None\<close>
  anonymizer is an AttributeError.
\<close>

definition anonymization_phase ::
  "'s globals \<Rightarrow> bool \<Rightarrow> string \<Rightarrow> string \<Rightarrow> 's RecognizerResult list \<Rightarrow> error + string" where
  "anonymization_phase g flag m txt analysis_results =
     (if flag
      then (case anonymizer g of
              None \<Rightarrow> Inl (AttributeError ''NoneType has no attribute anonymize'')
            | Some anon \<Rightarrow> anon txt analysis_results (operators m))
      else Inr txt)"

definition redact_pii ::
  "('s \<Rightarrow> 's) \<Rightarrow> 's globals \<Rightarrow> RedactRequest \<Rightarrow> error + 's RedactResponse" where
  "redact_pii round4 g request =
     (case analyzer g of
        None \<Rightarrow> Inl (HTTPException 500 ''Server Configuration Error: NLP Model Missing'')
      | Some an \<Rightarrow>
          if req_text request = []
          then Inr \<lparr> original_length = 0, redacted_text = [], entities_detected = [],
                     metadata = [(''status'', MStr ''empty_input'')] \<rparr>
          else
            (case an (req_text request) (entities request) of
               Inl e \<Rightarrow> Inl e
             | Inr analysis_results \<Rightarrow>
                 (case anonymization_phase g (anonymize request) (mask_char request)
                         (req_text request) analysis_results of
                    Inl e \<Rightarrow> Inl e
                  | Inr final_text \<Rightarrow>
                      Inr \<lparr> original_length = length (req_text request),
                            redacted_text = final_text,
                            entities_detected =
                              structured_entities round4 (req_text request) analysis_results,
                            metadata =
                              [(''engine'', MStr ''presidio-lite''),
                               (''model'', MStr ''en_core_web_sm''),
                               (''entity_count'',
                                  MInt (int (length (structured_entities round4
                                    (req_text request) analysis_results))))] \<rparr>)))"

section \<open>The batch actor of main.py\<close>

text \<open>
  The actor input is a JSON object; each of the three keys may be absent, and a key that
  is present holds a value of the type the endpoint's schema gives it.
  \<open>main\<close> ends in one of three ways without an exception: the two early returns and
  the pushed output record.
\<close>

record actor_input =
  in_text :: "string option"
  in_anonymize :: "bool option"
  in_mask_char :: "string option"

record 's output_data =
  out_original_length :: nat
  out_redacted_text :: string
  out_entities_detected :: "'s EntityResult list"
  is_success :: bool

datatype 's actor_result =
    NoTextProvided
  | EmptyTextProvided
  | Finished "'s output_data"

definition main ::
  "('s \<Rightarrow> 's) \<Rightarrow> 's globals \<Rightarrow> actor_input \<Rightarrow> error + 's actor_result" where
  "main round4 g actor_in =
     (case in_text actor_in of
        None \<Rightarrow> Inr NoTextProvided
      | Some text_to_process \<Rightarrow>
          let should_anonymize = (case in_anonymize actor_in of None \<Rightarrow> True | Some a \<Rightarrow> a);
              m = (case in_mask_char actor_in of None \<Rightarrow> ''*'' | Some c \<Rightarrow> c)
          in if text_to_process = [] then Inr EmptyTextProvided
             else
               (case analyzer g of
                  None \<Rightarrow> Inl (AttributeError ''NoneType has no attribute analyze'')
                | Some an \<Rightarrow>
                    (case an text_to_process None of
                       Inl e \<Rightarrow> Inl e
                     | Inr analysis_results \<Rightarrow>
                         (case anonymization_phase g should_anonymize m
                                 text_to_process analysis_results of
                            Inl e \<Rightarrow> Inl e
                          | Inr final_text \<Rightarrow>
                              Inr (Finished
                                \<lparr> out_original_length = length text_to_process,
                                  out_redacted_text = final_text,
                                  out_entities_detected =
                                    structured_entities round4 text_to_process analysis_results,
                                  is_success = True \<rparr>)))))"

section \<open>The anonymizer engine\<close>

text \<open>
  Modelled from the spec: the engine behind \<open>anonymizer.anonymize\<close> is the presidio
  library, which is not part of the repository. The definitions of this section follow
  the spec's Operator Registry (4.3: exact entity type, else the \<open>DEFAULT\<close> binding; the
  operator kinds \<open>replace\<close>, \<open>mask\<close>, \<open>redact\<close>) and its Rewriter (4.4: one pass
  over the spans in list order, copying the untouched text since the previous span's
  end, then the replacement, and the remainder after the last span; a span that ends
  beyond the text is a \<open>MalformedSpan\<close>, an empty or negative one an \<open>InvalidSpan\<close>).
  The operators \<open>hash\<close> and \<open>custom\<close> are never configured by the source and are
  reported as unsupported. For \<open>mask\<close>, a count above the length of the span is
  read as the length of the span.
\<close>

text \<open>Modelled from the spec: the Operator Registry's \<open>resolve\<close> (4.3), absent from the
  repository: the binding of the entity type, else the \<open>DEFAULT\<close> binding.\<close>

definition resolve :: "operator_dict \<Rightarrow> string \<Rightarrow> OperatorConfig option" where
  "resolve ops ty =
     (case map_of ops ty of Some b \<Rightarrow> Some b | None \<Rightarrow> map_of ops ''DEFAULT'')"

text \<open>Modelled from the spec: the \<open>mask\<close> operator (4.3), absent from the repository:
  \<open>n\<close> repetitions of the mask character, counted from the end of the span when
  \<open>from_end\<close> is set, so that with a count below the span's length the trailing
  characters are masked and the leading ones survive.\<close>

definition mask :: "char \<Rightarrow> nat \<Rightarrow> bool \<Rightarrow> string \<Rightarrow> string" where
  "mask c n from_end s =
     (let k = min n (length s)
      in if from_end then take (length s - k) s @ replicate k c
         else replicate k c @ drop k s)"

text \<open>Modelled from the spec: the application of an operator binding to the substring of
  a span (4.3), absent from the repository; the parameters are read from the binding
  under the keys the source writes.\<close>

fun operate :: "OperatorConfig \<Rightarrow> string \<Rightarrow> error + string" where
  "operate (OperatorConfig kind params) s =
     (if kind = ''replace'' then
        (case map_of params ''new_value'' of
           Some (PStr v) \<Rightarrow> Inr v
         | _ \<Rightarrow> Inl (LibraryError ''InvalidParam''))
      else if kind = ''mask'' then
        (case map_of params ''masking_char'' of
           Some (PStr [c]) \<Rightarrow>
             Inr (mask c
                   (case map_of params ''chars_to_mask'' of
                      Some (PInt n) \<Rightarrow> nat n | _ \<Rightarrow> length s)
                   (case map_of params ''from_end'' of
                      Some (PBool b) \<Rightarrow> b | _ \<Rightarrow> False)
                   s)
         | _ \<Rightarrow> Inl (LibraryError ''InvalidParam''))
      else if kind = ''redact'' then Inr []
      else Inl (LibraryError ''UnsupportedOperator''))"

text \<open>Modelled from the spec: the Rewriter's single left-to-right pass (4.4), absent from
  the repository; \<open>pos\<close> is the end of the previous span.\<close>

fun rewrite_from ::
  "int \<Rightarrow> string \<Rightarrow> 's RecognizerResult list \<Rightarrow> operator_dict \<Rightarrow> error + string" where
  "rewrite_from pos txt [] ops = Inr (py_slice txt pos (int (length txt)))"
| "rewrite_from pos txt (sp # rest) ops =
     (if int (length txt) < rr_end sp then Inl (LibraryError ''MalformedSpan'')
      else if rr_start sp < 0 \<or> rr_end sp \<le> rr_start sp then Inl (LibraryError ''InvalidSpan'')
      else
        (case resolve ops (rr_entity_type sp) of
           None \<Rightarrow> Inl (LibraryError ''MissingDefaultOperator'')
         | Some binding \<Rightarrow>
             (case operate binding (py_slice txt (rr_start sp) (rr_end sp)) of
                Inl e \<Rightarrow> Inl e
              | Inr replacement \<Rightarrow>
                  (case rewrite_from (rr_end sp) txt rest ops of
                     Inl e \<Rightarrow> Inl e
                   | Inr remainder \<Rightarrow>
                       Inr (py_slice txt pos (rr_start sp) @ replacement @ remainder)))))"

text \<open>Modelled from the spec: the Rewriter's \<open>apply(text, resolved_spans, registry)\<close>
  (4.4), which stands for \<open>anonymizer.anonymize\<close> in the examples.\<close>

definition rewriter_apply :: "'s anonymizer_engine" where
  "rewriter_apply txt spans ops = rewrite_from 0 txt spans ops"

section \<open>Sample inputs\<close>

text \<open>
  The exact-arithmetic reading of \<open>round(x, 4)\<close>, half to even, on rational scores.
  It instantiates \<open>round4\<close> in the examples only; the theorems hold for any \<open>round4\<close>.
\<close>

definition decimal_round4 :: "rat \<Rightarrow> rat" where
  "decimal_round4 x =
     (let y = x * 10000; f = \<lfloor>y\<rfloor>; d = y - of_int f
      in of_int (if d < 1 / 2 then f
                 else if 1 / 2 < d then f + 1
                 else if even f then f else f + 1) / 10000)"

text \<open>The sentence of test_local.py, with its phone number and its e-mail address.\<close>

definition sample_text :: string where
  "sample_text = ''Contact me at 08123456789 or john.doe@example.com.''"

definition phone_span :: "rat RecognizerResult" where
  "phone_span =
     \<lparr> rr_entity_type = ''PHONE_NUMBER'', rr_start = 14, rr_end = 25,
       rr_score = 4000049 / 10000000 \<rparr>"

definition email_span :: "rat RecognizerResult" where
  "email_span =
     \<lparr> rr_entity_type = ''EMAIL_ADDRESS'', rr_start = 29, rr_end = 49, rr_score = 1 \<rparr>"

definition url_span :: "rat RecognizerResult" where
  "url_span =
     \<lparr> rr_entity_type = ''URL'', rr_start = 38, rr_end = 49, rr_score = 6172839 / 10000000 \<rparr>"

text \<open>An analyzer that reports the spans left to right.\<close>

definition sample_analyzer :: "rat analyzer_engine" where
  "sample_analyzer txt ents = Inr [phone_span, email_span]"

text \<open>An analyzer that reports by descending score and keeps spans of different types
  that overlap.\<close>

definition scored_analyzer :: "rat analyzer_engine" where
  "scored_analyzer txt ents = Inr [email_span, url_span, phone_span]"

definition sample_globals :: "rat globals" where
  "sample_globals = load_engines (Inr (sample_analyzer, rewriter_apply))"

definition scored_globals :: "rat globals" where
  "scored_globals = load_engines (Inr (scored_analyzer, rewriter_apply))"

definition failed_globals :: "rat globals" where
  "failed_globals = load_engines (Inl (LibraryError ''model en_core_web_sm not found''))"

definition sample_request :: RedactRequest where
  "sample_request =
     RedactRequest_of_body
       \<lparr> body_text = sample_text, body_entities = None,
         body_mask_char = Some ''*'', body_anonymize = Some True \<rparr>"

definition sample_response :: "rat RedactResponse" where
  "sample_response =
     \<lparr> original_length = 50,
       redacted_text = ''Contact me at *********** or ********************.'',
       entities_detected =
         [\<lparr> er_type = ''PHONE_NUMBER'', er_start = 14, er_end = 25, er_score = 4 / 10,
            er_text = ''08123456789'' \<rparr>,
          \<lparr> er_type = ''EMAIL_ADDRESS'', er_start = 29, er_end = 49, er_score = 1,
            er_text = ''john.doe@example.com'' \<rparr>],
       metadata =
         [(''engine'', MStr ''presidio-lite''), (''model'', MStr ''en_core_web_sm''),
          (''entity_count'', MInt 2)] \<rparr>"

text \<open>The local fallback input of main.py carries a text and the flag only.\<close>

definition sample_actor_input :: actor_input where
  "sample_actor_input =
     \<lparr> in_text = Some sample_text, in_anonymize = Some True, in_mask_char = None \<rparr>"

definition sample_output :: "rat output_data" where
  "sample_output =
     \<lparr> out_original_length = 50,
       out_redacted_text = ''Contact me at *********** or ********************.'',
       out_entities_detected = entities_detected sample_response,
       is_success = True \<rparr>"

section \<open>Predicates of the claims\<close>

text \<open>
  A span list is resolved when it is sorted by start and each span ends no later than
  the next one starts.
\<close>

fun sorted_non_overlapping :: "(int \<times> int) list \<Rightarrow> bool" where
  "sorted_non_overlapping [] = True"
| "sorted_non_overlapping [a] = True"
| "sorted_non_overlapping (a # b # rest) =
     (fst a \<le> fst b \<and> snd a \<le> fst b \<and> sorted_non_overlapping (b # rest))"

definition result_span :: "'s RecognizerResult \<Rightarrow> int \<times> int" where
  "result_span res = (rr_start res, rr_end res)"

definition entity_span :: "'s EntityResult \<Rightarrow> int \<times> int" where
  "entity_span e = (er_start e, er_end e)"

text \<open>The two operator dicts the source can build.\<close>

definition replace_operators :: operator_dict where
  "replace_operators =
     [(''DEFAULT'', OperatorConfig ''replace'' [(''new_value'', PStr ''<PII>'')])]"

definition mask_operators :: "string \<Rightarrow> operator_dict" where
  "mask_operators m =
     [(''DEFAULT'', OperatorConfig ''mask''
        [(''masking_char'', PStr m), (''chars_to_mask'', PInt 100),
         (''from_end'', PBool True)])]"

text \<open>Further requests and actor inputs over the sample sentence.\<close>

definition detection_request :: RedactRequest where
  "detection_request = sample_request\<lparr> anonymize := False \<rparr>"

definition wide_mask_request :: RedactRequest where
  "wide_mask_request = sample_request\<lparr> mask_char := ''##'' \<rparr>"

definition empty_request :: RedactRequest where
  "empty_request = sample_request\<lparr> req_text := [] \<rparr>"

definition bare_body :: request_body where
  "bare_body =
     \<lparr> body_text = sample_text, body_entities = None, body_mask_char = None,
       body_anonymize = None \<rparr>"

definition empty_actor_input :: actor_input where
  "empty_actor_input = \<lparr> in_text = Some [], in_anonymize = None, in_mask_char = None \<rparr>"

definition wide_mask_actor_input :: actor_input where
  "wide_mask_actor_input =
     \<lparr> in_text = Some sample_text, in_anonymize = None, in_mask_char = Some ''##'' \<rparr>"

definition empty_response :: "'s RedactResponse" where
  "empty_response =
     \<lparr> original_length = 0, redacted_text = [], entities_detected = [],
       metadata = [(''status'', MStr ''empty_input'')] \<rparr>"

definition scored_entities :: "rat EntityResult list" where
  "scored_entities =
     [\<lparr> er_type = ''EMAIL_ADDRESS'', er_start = 29, er_end = 49, er_score = 1,
        er_text = ''john.doe@example.com'' \<rparr>,
      \<lparr> er_type = ''URL'', er_start = 38, er_end = 49, er_score = 6173 / 10000,
        er_text = ''example.com'' \<rparr>,
      \<lparr> er_type = ''PHONE_NUMBER'', er_start = 14, er_end = 25, er_score = 4 / 10,
        er_text = ''08123456789'' \<rparr>]"

definition scored_response :: "rat RedactResponse" where
  "scored_response =
     \<lparr> original_length = 50,
       redacted_text = sample_text,
       entities_detected = scored_entities,
       metadata =
         [(''engine'', MStr ''presidio-lite''), (''model'', MStr ''en_core_web_sm''),
          (''entity_count'', MInt 3)] \<rparr>"

definition resolved_entities :: "'s RedactResponse \<Rightarrow> bool" where
  "resolved_entities resp =
     sorted_non_overlapping (map entity_span (entities_detected resp))"

definition missing_model_error :: error where
  "missing_model_error =
     HTTPException 500 ''Server Configuration Error: NLP Model Missing''"

text \<open>
  A detected URL of 120 characters, longer than the \<open>chars_to_mask\<close> of 100 that both
  entry points configure.
\<close>

definition long_url :: string where
  "long_url = ''https://example.com/'' @ replicate 100 CHR ''a''"

definition long_url_text :: string where
  "long_url_text = ''Visit '' @ long_url @ '' now''"

definition long_url_span :: "rat RecognizerResult" where
  "long_url_span =
     \<lparr> rr_entity_type = ''URL'', rr_start = 6, rr_end = 126, rr_score = 1 / 2 \<rparr>"

definition long_url_analyzer :: "rat analyzer_engine" where
  "long_url_analyzer txt ents = Inr [long_url_span]"

definition long_url_globals :: "rat globals" where
  "long_url_globals = load_engines (Inr (long_url_analyzer, rewriter_apply))"

definition long_url_request :: RedactRequest where
  "long_url_request =
     RedactRequest_of_body
       \<lparr> body_text = long_url_text, body_entities = None,
         body_mask_char = Some ''*'', body_anonymize = Some True \<rparr>"

definition long_url_actor_input :: actor_input where
  "long_url_actor_input =
     \<lparr> in_text = Some long_url_text, in_anonymize = Some True, in_mask_char = Some ''*'' \<rparr>"

definition redacted_of :: "error + 's actor_result \<Rightarrow> error + string option" where
  "redacted_of r =
     (case r of
        Inl e \<Rightarrow> Inl e
      | Inr (Finished out) \<Rightarrow> Inr (Some (out_redacted_text out))
      | Inr _ \<Rightarrow> Inr None)"

text \<open>
  Position \<open>i\<close> of the text lies inside one of the spans; a span is well formed for a
  text when \<open>0 \<le> start < end \<le> len(text)\<close> (the invariant of the spec's data model).
\<close>

definition covered :: "'s RecognizerResult list \<Rightarrow> nat \<Rightarrow> bool" where
  "covered spans i = list_ex (\<lambda>sp. rr_start sp \<le> int i \<and> int i < rr_end sp) spans"

definition well_formed :: "string \<Rightarrow> 's RecognizerResult \<Rightarrow> bool" where
  "well_formed txt sp =
     (0 \<le> rr_start sp \<and> rr_start sp < rr_end sp \<and> rr_end sp \<le> int (length txt))"

section \<open>Evaluation and helper lemmas\<close>

lemmas sample_defs =
  sample_globals_def scored_globals_def failed_globals_def load_engines_def
  sample_request_def RedactRequest_of_body_def sample_text_def sample_analyzer_def
  scored_analyzer_def phone_span_def email_span_def url_span_def sample_response_def
  sample_actor_input_def sample_output_def

lemma structured_entities_map:
  "structured_entities round4 txt rs = map (entity_of round4 txt) rs"
  by (induction rs) simp_all

lemma redact_pii_run:
  assumes "analyzer g = Some an" and "req_text request \<noteq> []"
    and "an (req_text request) (entities request) = Inr rs"
  shows "redact_pii round4 g request =
     (case anonymization_phase g (anonymize request) (mask_char request)
             (req_text request) rs of
        Inl e \<Rightarrow> Inl e
      | Inr final_text \<Rightarrow>
          Inr \<lparr> original_length = length (req_text request),
                redacted_text = final_text,
                entities_detected = structured_entities round4 (req_text request) rs,
                metadata =
                  [(''engine'', MStr ''presidio-lite''), (''model'', MStr ''en_core_web_sm''),
                   (''entity_count'',
                      MInt (int (length (structured_entities round4 (req_text request) rs))))] \<rparr>)"
  using assms by (simp add: redact_pii_def)

lemma redact_pii_Inr:
  assumes "redact_pii round4 g request = Inr resp"
  shows "\<exists>an. analyzer g = Some an \<and>
     (if req_text request = []
      then resp = \<lparr> original_length = 0, redacted_text = [], entities_detected = [],
                    metadata = [(''status'', MStr ''empty_input'')] \<rparr>
      else \<exists>rs final_text.
             an (req_text request) (entities request) = Inr rs \<and>
             anonymization_phase g (anonymize request) (mask_char request)
               (req_text request) rs = Inr final_text \<and>
             original_length resp = length (req_text request) \<and>
             redacted_text resp = final_text \<and>
             entities_detected resp = structured_entities round4 (req_text request) rs)"
  using assms unfolding redact_pii_def
  by (auto split: option.splits sum.splits if_splits)

lemma main_run:
  assumes "analyzer g = Some an" and "in_text actor_in = Some txt" and "txt \<noteq> []"
    and "an txt None = Inr rs"
  shows "main round4 g actor_in =
     (case anonymization_phase g
             (case in_anonymize actor_in of None \<Rightarrow> True | Some a \<Rightarrow> a)
             (case in_mask_char actor_in of None \<Rightarrow> ''*'' | Some c \<Rightarrow> c) txt rs of
        Inl e \<Rightarrow> Inl e
      | Inr final_text \<Rightarrow>
          Inr (Finished
            \<lparr> out_original_length = length txt,
              out_redacted_text = final_text,
              out_entities_detected = structured_entities round4 txt rs,
              is_success = True \<rparr>))"
  using assms by (simp add: main_def Let_def)

lemma main_Finished:
  assumes "main round4 g actor_in = Inr (Finished out)"
  shows "\<exists>an txt rs final_text.
     analyzer g = Some an \<and> in_text actor_in = Some txt \<and> txt \<noteq> [] \<and>
     an txt None = Inr rs \<and>
     anonymization_phase g
       (case in_anonymize actor_in of None \<Rightarrow> True | Some a \<Rightarrow> a)
       (case in_mask_char actor_in of None \<Rightarrow> ''*'' | Some c \<Rightarrow> c) txt rs = Inr final_text \<and>
     out = \<lparr> out_original_length = length txt, out_redacted_text = final_text,
             out_entities_detected = structured_entities round4 txt rs,
             is_success = True \<rparr>"
  using assms unfolding main_def Let_def
  by (auto split: option.splits sum.splits if_splits)

lemma round4_phone: "decimal_round4 (4000049 / 10000000) = 4 / 10"
  by code_simp

lemma round4_one: "decimal_round4 1 = 1"
  by code_simp

lemma round4_url: "decimal_round4 (6172839 / 10000000) = 6173 / 10000"
  by code_simp

lemma round4_tie: "decimal_round4 (3125 / 100000) = 312 / 10000"
  by code_simp

lemmas run_defs =
  redact_pii_def main_def anonymization_phase_def operators_def rewriter_apply_def
  resolve_def py_slice_def mask_def entity_of_def Let_def round4_phone round4_one round4_url

lemma sample_run:
  "redact_pii decimal_round4 sample_globals sample_request = Inr sample_response"
  by (simp add: sample_defs run_defs)

lemma sample_main_run:
  "main decimal_round4 sample_globals sample_actor_input = Inr (Finished sample_output)"
  by (simp add: sample_defs run_defs)

lemmas more_defs = detection_request_def wide_mask_request_def empty_request_def
  bare_body_def empty_actor_input_def wide_mask_actor_input_def empty_response_def
  scored_entities_def scored_response_def resolved_entities_def missing_model_error_def
  replace_operators_def mask_operators_def result_span_def entity_span_def

lemma scored_run:
  "redact_pii decimal_round4 scored_globals detection_request = Inr scored_response"
  by (simp add: sample_defs run_defs more_defs)

lemma operators_replace: "length m \<noteq> 1 \<Longrightarrow> operators m = replace_operators"
  by (simp add: operators_def replace_operators_def)

lemma operators_mask: "length m = 1 \<Longrightarrow> operators m = mask_operators m"
  by (auto simp: operators_def mask_operators_def)

lemma redact_pii_text:
  assumes "analyzer g = Some an" and "req_text request \<noteq> []"
    and "an (req_text request) (entities request) = Inr rs"
  shows "map_sum id redacted_text (redact_pii round4 g request) =
     anonymization_phase g (anonymize request) (mask_char request) (req_text request) rs"
  using assms by (simp add: redact_pii_run split: sum.splits)

lemma sample_engines:
  "analyzer sample_globals = Some sample_analyzer"
  "anonymizer sample_globals = Some rewriter_apply"
  by (simp_all add: sample_globals_def load_engines_def)

lemma replace_sample:
  "rewriter_apply sample_text [phone_span, email_span] replace_operators
     = Inr ''Contact me at <PII> or <PII>.''"
  by (simp add: sample_defs run_defs more_defs)

lemma mask_sample:
  "rewriter_apply sample_text [phone_span, email_span] (mask_operators ''*'')
     = Inr ''Contact me at *********** or ********************.''"
  by (simp add: sample_defs run_defs more_defs)

lemma failed_init_general:
  "nlp_engine_loaded (health_check (load_engines (Inl e))) = False"
  "redact_pii round4 (load_engines (Inl e)) request = Inl missing_model_error"
  "main round4 (load_engines (Inl e))
     \<lparr> in_text = Some (c # cs), in_anonymize = a, in_mask_char = m \<rparr>
     = Inl (AttributeError ''NoneType has no attribute analyze'')"
  by (simp_all add: health_check_def load_engines_def redact_pii_def main_def
      missing_model_error_def Let_def)

lemma long_url_mask:
  "rewriter_apply long_url_text [long_url_span] (mask_operators ''*'')
     = Inr (''Visit https://example.com/'' @ replicate 100 CHR ''*'' @ '' now'')"
  by code_simp

section \<open>Masking with a count of 100\<close>

text \<open>
  With the operator dict of the source, the rewriter masks every character of every
  span of at most 100 characters and copies every other character, provided the spans
  are well formed, sorted and disjoint.
\<close>

lemma py_slice_nat:
  "0 \<le> i \<Longrightarrow> i \<le> j \<Longrightarrow> j \<le> int (length xs) \<Longrightarrow>
   py_slice xs i j = take (nat j - nat i) (drop (nat i) xs)"
  by (simp add: py_slice_def Let_def min_def nat_diff_distrib)

lemma length_py_slice:
  "0 \<le> i \<Longrightarrow> i \<le> j \<Longrightarrow> j \<le> int (length xs) \<Longrightarrow>
   length (py_slice xs i j) = nat j - nat i"
  by (simp add: py_slice_nat)

lemma mask_whole: "length s \<le> n \<Longrightarrow> mask c n True s = replicate (length s) c"
  by (simp add: mask_def Let_def min_def)

lemma mask_tail:
  "n \<le> length s \<Longrightarrow> mask c n True s = take (length s - n) s @ replicate n c"
  by (simp add: mask_def Let_def min_def)

lemma resolve_mask_operators:
  "resolve (mask_operators m) ty =
     Some (OperatorConfig ''mask''
        [(''masking_char'', PStr m), (''chars_to_mask'', PInt 100),
         (''from_end'', PBool True)])"
  by (simp add: resolve_def mask_operators_def)

lemma operate_mask_100:
  "operate (OperatorConfig ''mask''
        [(''masking_char'', PStr [c]), (''chars_to_mask'', PInt 100),
         (''from_end'', PBool True)]) s = Inr (mask c 100 True s)"
  by simp

lemma sorted_non_overlapping_Cons:
  "sorted_non_overlapping (a # xs) \<Longrightarrow>
   sorted_non_overlapping xs \<and> (\<forall>b \<in> set xs. fst a \<le> fst b \<and> snd a \<le> fst b)"
proof (induction xs arbitrary: a)
  case Nil
  then show ?case by simp
next
  case (Cons b xs)
  from Cons.prems have ab: "fst a \<le> fst b" "snd a \<le> fst b"
    and rest: "sorted_non_overlapping (b # xs)" by simp_all
  from Cons.IH [OF rest] have "\<forall>c \<in> set xs. fst b \<le> fst c" by blast
  with ab rest show ?case by fastforce
qed

lemma rewrite_from_mask_step:
  assumes "well_formed txt sp"
  shows "rewrite_from pos txt (sp # rest) (mask_operators [c]) =
     (case rewrite_from (rr_end sp) txt rest (mask_operators [c]) of
        Inl e \<Rightarrow> Inl e
      | Inr remainder \<Rightarrow>
          Inr (py_slice txt pos (rr_start sp) @
               mask c 100 True (py_slice txt (rr_start sp) (rr_end sp)) @ remainder))"
  using assms
  by (simp add: well_formed_def resolve_mask_operators del: operate.simps
      add: operate_mask_100)

lemma rewrite_from_mask_full:
  assumes "sorted_non_overlapping (map result_span spans)"
    and "\<forall>sp \<in> set spans. well_formed txt sp \<and> rr_end sp - rr_start sp \<le> 100"
    and "\<forall>sp \<in> set spans. int p \<le> rr_start sp"
    and "p \<le> length txt"
  shows "\<exists>out. rewrite_from (int p) txt spans (mask_operators [c]) = Inr out \<and>
           length out = length txt - p \<and>
           (\<forall>i < length txt - p.
              out ! i = (if covered spans (p + i) then c else txt ! (p + i)))"
  using assms
proof (induction spans arbitrary: p)
  case Nil
  then show ?case
    by (simp add: py_slice_nat covered_def)
next
  case (Cons sp rest)
  define s where "s = nat (rr_start sp)"
  define e where "e = nat (rr_end sp)"
  from Cons.prems(2) have wf: "well_formed txt sp" and short: "rr_end sp - rr_start sp \<le> 100"
    by simp_all
  from wf have se: "rr_start sp = int s" "rr_end sp = int e" "s < e" "e \<le> length txt"
    by (auto simp: well_formed_def s_def e_def)
  from Cons.prems(3) se have ps: "p \<le> s" by simp
  from Cons.prems(1) have "sorted_non_overlapping (result_span sp # map result_span rest)"
    by simp
  from sorted_non_overlapping_Cons [OF this]
  have sorted_rest: "sorted_non_overlapping (map result_span rest)"
    and after: "\<forall>sp' \<in> set rest. int e \<le> rr_start sp'"
    by (auto simp: result_span_def se)
  from Cons.prems(2) have wf_rest:
    "\<forall>sp \<in> set rest. well_formed txt sp \<and> rr_end sp - rr_start sp \<le> 100"
    by simp
  from Cons.IH [OF sorted_rest wf_rest after se(4)]
  obtain rem where rem: "rewrite_from (int e) txt rest (mask_operators [c]) = Inr rem"
    and rem_len: "length rem = length txt - e"
    and rem_nth: "\<forall>i < length txt - e.
       rem ! i = (if covered rest (e + i) then c else txt ! (e + i))"
    by blast
  define head where "head = py_slice txt (int p) (int s)"
  define body where "body = mask c 100 True (py_slice txt (int s) (int e))"
  have head_eq: "head = take (s - p) (drop p txt)"
    using ps se by (simp add: head_def py_slice_nat)
  have head_len: "length head = s - p"
    using ps se by (simp add: head_eq)
  have slice_len: "length (py_slice txt (int s) (int e)) = e - s"
    using se by (simp add: length_py_slice)
  have "e - s \<le> 100" using short se by simp
  then have body_eq: "body = replicate (e - s) c"
    by (simp add: body_def mask_whole slice_len)
  have run: "rewrite_from (int p) txt (sp # rest) (mask_operators [c])
     = Inr (head @ body @ rem)"
    using rewrite_from_mask_step [OF wf, of "int p" rest c] rem
    by (simp add: se head_def body_def)
  have len: "length (head @ body @ rem) = length txt - p"
    using head_len body_eq rem_len ps se by simp
  have nth: "(head @ body @ rem) ! i
       = (if covered (sp # rest) (p + i) then c else txt ! (p + i))"
    if i: "i < length txt - p" for i
  proof -
    consider "i < s - p" | "s - p \<le> i" "i < e - p" | "e - p \<le> i"
      by linarith
    then show ?thesis
    proof cases
      case 1
      then have "(head @ body @ rem) ! i = txt ! (p + i)"
        using head_len se by (simp add: nth_append head_eq)
      moreover have "\<not> covered (sp # rest) (p + i)"
        using 1 after se by (auto simp: covered_def list_ex_iff)
      ultimately show ?thesis by simp
    next
      case 2
      have body_len: "length body = e - s"
        by (simp add: body_eq)
      have k: "\<not> i < length head" "i - length head < length body"
        using 2 head_len body_len ps se by linarith+
      then have "(head @ body @ rem) ! i = body ! (i - length head)"
        by (simp add: nth_append)
      also have "\<dots> = c"
        using k(2) body_len by (simp add: body_eq)
      finally have "(head @ body @ rem) ! i = c" .
      moreover have "int s \<le> int (p + i)" "int (p + i) < int e"
        using 2 ps se by linarith+
      then have "covered (sp # rest) (p + i)"
        using se by (simp add: covered_def)
      ultimately show ?thesis by simp
    next
      case 3
      have body_len: "length body = e - s"
        by (simp add: body_eq)
      have k: "\<not> i < length head" "\<not> i - length head < length body"
        "i - length head - length body = i - (e - p)"
        using 3 head_len body_len ps se by linarith+
      then have a: "(head @ body @ rem) ! i = rem ! (i - (e - p))"
        by (simp add: nth_append)
      have b: "e + (i - (e - p)) = p + i" using 3 ps se by simp
      have "i - (e - p) < length txt - e" using 3 i ps se by simp
      with rem_nth b have "rem ! (i - (e - p))
         = (if covered rest (p + i) then c else txt ! (p + i))"
        by (metis)
      moreover have "\<not> int (p + i) < int e"
        using 3 ps se by linarith
      then have "covered (sp # rest) (p + i) = covered rest (p + i)"
        using se by (simp add: covered_def)
      ultimately show ?thesis using a by simp
    qed
  qed
  from run len nth show ?case by blast
qed

lemma mask_full_coverage_upto_100:
  assumes "sorted_non_overlapping (map result_span spans)"
    and "\<forall>sp \<in> set spans. well_formed txt sp \<and> rr_end sp - rr_start sp \<le> 100"
  shows "\<exists>out. rewriter_apply txt spans (mask_operators [c]) = Inr out \<and>
           length out = length txt \<and>
           (\<forall>i < length txt. out ! i = (if covered spans i then c else txt ! i))"
proof -
  have "\<forall>sp \<in> set spans. int 0 \<le> rr_start sp"
    using assms(2) by (auto simp: well_formed_def)
  from rewrite_from_mask_full [OF assms this, of c]
  show ?thesis
    by (auto simp: rewriter_apply_def)
qed

text \<open>
  A span of more than 100 characters keeps its head: only its last 100 characters are
  masked.
\<close>

lemma long_span_head_survives:
  assumes "well_formed txt sp" and "100 < rr_end sp - rr_start sp"
  shows "rewriter_apply txt [sp] (mask_operators [c]) =
     Inr (take (nat (rr_start sp)) txt @
          take (nat (rr_end sp - rr_start sp) - 100) (drop (nat (rr_start sp)) txt) @
          replicate 100 c @
          drop (nat (rr_end sp)) txt)"
proof -
  define s where "s = nat (rr_start sp)"
  define e where "e = nat (rr_end sp)"
  from assms have se: "rr_start sp = int s" "rr_end sp = int e" "s + 100 < e"
    "e \<le> length txt"
    by (auto simp: well_formed_def s_def e_def)
  have slice: "py_slice txt (int s) (int e) = take (e - s) (drop s txt)"
    using se by (simp add: py_slice_nat)
  have len: "length (take (e - s) (drop s txt)) = e - s"
    using se by simp
  have "mask c 100 True (take (e - s) (drop s txt))
      = take (e - s - 100) (drop s txt) @ replicate 100 c"
    using se len by (simp add: mask_tail min_def)
  moreover have "py_slice txt 0 (int s) = take s txt"
    using se by (simp add: py_slice_nat)
  moreover have "py_slice txt (int e) (int (length txt)) = drop e txt"
    using se by (simp add: py_slice_nat)
  ultimately show ?thesis
    using rewrite_from_mask_step [OF assms(1), of 0 "[]" c] slice se
    by (simp add: rewriter_apply_def nat_diff_distrib flip: s_def e_def)
qed

section \<open>The claims\<close>

text \<open>
  C1. Under the mask operator the source configures (one mask character, a count of
  100, from the end), a span is to be replaced by mask characters over its whole
  length. A detected span of 120 characters keeps its first 20 characters: only the
  last 100 are masked, through the endpoint and through the batch actor alike. The
  characters outside the span are copied unchanged.
\<close>

theorem long_span_keeps_its_head:
  "map_sum id redacted_text (redact_pii decimal_round4 long_url_globals long_url_request)
     = Inr (''Visit https://example.com/'' @ replicate 100 CHR ''*'' @ '' now'') \<and>
   redacted_of (main decimal_round4 long_url_globals long_url_actor_input)
     = Inr (Some (''Visit https://example.com/'' @ replicate 100 CHR ''*'' @ '' now'')) \<and>
   py_slice long_url_text 6 126 = ''https://example.com/'' @ replicate 100 CHR ''a'' \<and>
   ''Visit https://example.com/'' @ replicate 100 CHR ''*'' @ '' now''
     \<noteq> ''Visit '' @ replicate 120 CHR ''*'' @ '' now''"
  by code_simp

text \<open>
  C2, as amended. The entity list of a response has one entry per analyzer result, in
  the analyzer's order and with its offsets; it is sorted by start and free of overlaps
  exactly when the analyzer's result list is. The serving layer neither sorts nor
  resolves overlaps.
\<close>

theorem entities_keep_analyzer_order:
  assumes "redact_pii round4 g request = Inr resp" and "analyzer g = Some an"
    and "req_text request \<noteq> []"
    and "an (req_text request) (entities request) = Inr rs"
  shows "map entity_span (entities_detected resp) = map result_span rs \<and>
     resolved_entities resp = sorted_non_overlapping (map result_span rs)"
proof -
  from redact_pii_Inr [OF assms(1)] assms(2-4)
  have "entities_detected resp = map (entity_of round4 (req_text request)) rs"
    by (auto simp: structured_entities_map)
  then have "map entity_span (entities_detected resp) = map result_span rs"
    by (simp add: entity_span_def result_span_def entity_of_def)
  then show ?thesis
    by (simp add: resolved_entities_def)
qed

theorem entities_keep_analyzer_order_witness:
  "redact_pii decimal_round4 sample_globals sample_request = Inr sample_response \<and>
   analyzer sample_globals = Some sample_analyzer \<and>
   req_text sample_request \<noteq> [] \<and>
   sample_analyzer (req_text sample_request) (entities sample_request)
     = Inr [phone_span, email_span] \<and>
   map entity_span (entities_detected sample_response) = [(14, 25), (29, 49)] \<and>
   map result_span [phone_span, email_span] = [(14, 25), (29, 49)] \<and>
   resolved_entities sample_response"
proof -
  have c: "sample_analyzer (req_text sample_request) (entities sample_request)
     = Inr [phone_span, email_span]"
    by (simp add: sample_analyzer_def)
  have t: "req_text sample_request \<noteq> []"
    by (simp add: sample_request_def RedactRequest_of_body_def sample_text_def)
  have s: "map result_span [phone_span, email_span] = [(14, 25), (29, 49)]"
    by (simp add: result_span_def phone_span_def email_span_def)
  from entities_keep_analyzer_order [OF sample_run sample_engines(1) t c]
  show ?thesis
    using sample_run sample_engines(1) t c s by simp
qed

text \<open>
  C2 as stated fails: for an analyzer that reports by descending score and keeps
  overlapping spans of different types, the returned list is neither sorted nor disjoint.
\<close>

theorem entities_unsorted_and_overlapping:
  "map_sum id resolved_entities
     (redact_pii decimal_round4 scored_globals detection_request) = Inr False \<and>
   map_sum id (map entity_span \<circ> entities_detected)
     (redact_pii decimal_round4 scored_globals detection_request)
     = Inr [(29, 49), (38, 49), (14, 25)]"
  by (simp add: scored_run scored_response_def scored_entities_def resolved_entities_def
      entity_span_def)

text \<open>
  C3, as amended. A request that omits \<open>mask_char\<close> gets the schema default \<open>*\<close>, so
  its operator is the mask with \<open>*\<close> and that operator is what the anonymizer receives,
  in the endpoint and in the batch actor; the literal placeholder \<open><PII>\<close> is the
  operator exactly when the mask string is not one character long.
\<close>

theorem omitted_mask_char_defaults_to_star_mask:
  "(body_mask_char b = None \<longrightarrow>
      operators (mask_char (RedactRequest_of_body b)) = mask_operators ''*'') \<and>
   (operators m = replace_operators \<longleftrightarrow> length m \<noteq> 1) \<and>
   (body_mask_char b = None \<longrightarrow> body_anonymize b \<noteq> Some False \<longrightarrow>
      analyzer g = Some an \<longrightarrow> anonymizer g = Some anon \<longrightarrow> body_text b \<noteq> [] \<longrightarrow>
      an (body_text b) (body_entities b) = Inr rs \<longrightarrow>
      map_sum id redacted_text (redact_pii round4 g (RedactRequest_of_body b))
        = anon (body_text b) rs (mask_operators ''*'')) \<and>
   (in_mask_char actor_in = None \<longrightarrow> in_anonymize actor_in \<noteq> Some False \<longrightarrow>
      analyzer g = Some an \<longrightarrow> anonymizer g = Some anon \<longrightarrow>
      in_text actor_in = Some txt \<longrightarrow> txt \<noteq> [] \<longrightarrow> an txt None = Inr rs' \<longrightarrow>
      main round4 g actor_in =
        (case anon txt rs' (mask_operators ''*'') of
           Inl e \<Rightarrow> Inl e
         | Inr final_text \<Rightarrow>
             Inr (Finished
               \<lparr> out_original_length = length txt, out_redacted_text = final_text,
                 out_entities_detected = structured_entities round4 txt rs',
                 is_success = True \<rparr>)))"
proof (intro conjI impI)
  assume "body_mask_char b = None"
  then show "operators (mask_char (RedactRequest_of_body b)) = mask_operators ''*''"
    by (simp add: RedactRequest_of_body_def operators_mask)
next
  show "operators m = replace_operators \<longleftrightarrow> length m \<noteq> 1"
    by (auto simp: operators_def replace_operators_def)
next
  assume h: "body_mask_char b = None" "body_anonymize b \<noteq> Some False"
    "analyzer g = Some an" "anonymizer g = Some anon" "body_text b \<noteq> []"
    "an (body_text b) (body_entities b) = Inr rs"
  have f: "anonymize (RedactRequest_of_body b)"
    using h(2) by (cases "body_anonymize b") (auto simp: RedactRequest_of_body_def)
  have r: "req_text (RedactRequest_of_body b) = body_text b"
    "entities (RedactRequest_of_body b) = body_entities b"
    "mask_char (RedactRequest_of_body b) = ''*''"
    using h(1) by (simp_all add: RedactRequest_of_body_def)
  from h r have "map_sum id redacted_text (redact_pii round4 g (RedactRequest_of_body b))
     = anonymization_phase g (anonymize (RedactRequest_of_body b)) ''*'' (body_text b) rs"
    using redact_pii_text [of g an "RedactRequest_of_body b" rs round4] by simp
  with f h(4)
  show "map_sum id redacted_text (redact_pii round4 g (RedactRequest_of_body b))
        = anon (body_text b) rs (mask_operators ''*'')"
    by (simp add: anonymization_phase_def operators_mask)
next
  assume h: "in_mask_char actor_in = None" "in_anonymize actor_in \<noteq> Some False"
    "analyzer g = Some an" "anonymizer g = Some anon"
    "in_text actor_in = Some txt" "txt \<noteq> []" "an txt None = Inr rs'"
  have f: "(case in_anonymize actor_in of None \<Rightarrow> True | Some a \<Rightarrow> a)"
    using h(2) by (cases "in_anonymize actor_in") auto
  show "main round4 g actor_in =
        (case anon txt rs' (mask_operators ''*'') of
           Inl e \<Rightarrow> Inl e
         | Inr final_text \<Rightarrow>
             Inr (Finished
               \<lparr> out_original_length = length txt, out_redacted_text = final_text,
                 out_entities_detected = structured_entities round4 txt rs',
                 is_success = True \<rparr>))"
    using h f
    by (simp add: main_run [OF h(3) h(5) h(6) h(7)] anonymization_phase_def
        operators_mask)
qed

theorem omitted_mask_char_defaults_to_star_mask_witness:
  "body_mask_char bare_body = None \<and>
   operators (mask_char (RedactRequest_of_body bare_body)) = mask_operators ''*'' \<and>
   (operators ''##'' = replace_operators) = (length ''##'' \<noteq> 1) \<and>
   map_sum id redacted_text
     (redact_pii decimal_round4 sample_globals (RedactRequest_of_body bare_body))
     = Inr ''Contact me at *********** or ********************.'' \<and>
   in_mask_char sample_actor_input = None \<and>
   main decimal_round4 sample_globals sample_actor_input = Inr (Finished sample_output)"
proof -
  have b: "body_mask_char bare_body = None" "body_anonymize bare_body = None"
    "body_text bare_body = sample_text" "body_entities bare_body = None"
    by (simp_all add: bare_body_def)
  have a: "in_mask_char sample_actor_input = None"
    "in_anonymize sample_actor_input = Some True"
    "in_text sample_actor_input = Some sample_text"
    by (simp_all add: sample_actor_input_def)
  have an: "sample_analyzer sample_text None = Inr [phone_span, email_span]"
    by (simp add: sample_analyzer_def)
  have ne: "sample_text \<noteq> []"
    by (simp add: sample_text_def)
  from omitted_mask_char_defaults_to_star_mask
    [of bare_body "''##''" sample_globals sample_analyzer rewriter_apply
        "[phone_span, email_span]" decimal_round4 sample_actor_input
        sample_text "[phone_span, email_span]"]
  show ?thesis
    using b a an ne sample_engines mask_sample sample_main_run by simp
qed

text \<open>
  C3 as stated fails: the request that configures nothing is masked, not replaced by
  the literal placeholder.
\<close>

theorem omitted_operator_is_not_replace:
  "body_mask_char bare_body = None \<and>
   operators (mask_char (RedactRequest_of_body bare_body)) = mask_operators ''*'' \<and>
   operators (mask_char (RedactRequest_of_body bare_body)) \<noteq> replace_operators"
  by (simp add: bare_body_def RedactRequest_of_body_def operators_def mask_operators_def
      replace_operators_def)

text \<open>
  C4. Every entity of a response carries as text the slice of the input text between
  its own start and end, in the endpoint and in the batch actor. The entities do not
  depend on the rewritten text: the same request in detection-only mode returns the same
  response but for the redacted text, which is then the input itself.
\<close>

theorem entity_text_is_slice_of_input:
  "(redact_pii round4 g request = Inr resp \<longrightarrow>
      (\<forall>e \<in> set (entities_detected resp).
         er_text e = py_slice (req_text request) (er_start e) (er_end e)) \<and>
      redact_pii round4 g (request\<lparr> anonymize := False \<rparr>)
        = Inr (resp\<lparr> redacted_text := req_text request \<rparr>)) \<and>
   (main round4 g actor_in = Inr (Finished out) \<longrightarrow> in_text actor_in = Some txt \<longrightarrow>
      (\<forall>e \<in> set (out_entities_detected out).
         er_text e = py_slice txt (er_start e) (er_end e)))"
proof (intro conjI impI)
  assume r: "redact_pii round4 g request = Inr resp"
  from redact_pii_Inr [OF r]
  show "\<forall>e \<in> set (entities_detected resp).
         er_text e = py_slice (req_text request) (er_start e) (er_end e)"
    by (cases "req_text request = []")
       (auto simp: structured_entities_map entity_of_def)
  from redact_pii_Inr [OF r] obtain an where an: "analyzer g = Some an" by blast
  show "redact_pii round4 g (request\<lparr> anonymize := False \<rparr>)
        = Inr (resp\<lparr> redacted_text := req_text request \<rparr>)"
  proof (cases "req_text request = []")
    case True
    with redact_pii_Inr [OF r] an show ?thesis
      by (auto simp: redact_pii_def)
  next
    case False
    with r an show ?thesis
      by (auto simp: redact_pii_def anonymization_phase_def split: sum.splits)
  qed
next
  assume "main round4 g actor_in = Inr (Finished out)" and "in_text actor_in = Some txt"
  with main_Finished [of round4 g actor_in out]
  show "\<forall>e \<in> set (out_entities_detected out).
         er_text e = py_slice txt (er_start e) (er_end e)"
    by (auto simp: structured_entities_map entity_of_def)
qed

theorem entity_text_is_slice_of_input_witness:
  "redact_pii decimal_round4 sample_globals sample_request = Inr sample_response \<and>
   list_all (\<lambda>e. er_text e = py_slice sample_text (er_start e) (er_end e))
     (entities_detected sample_response) \<and>
   map er_text (entities_detected sample_response)
     = [''08123456789'', ''john.doe@example.com''] \<and>
   redacted_text sample_response \<noteq> sample_text \<and>
   redact_pii decimal_round4 sample_globals (sample_request\<lparr> anonymize := False \<rparr>)
     = Inr (sample_response\<lparr> redacted_text := sample_text \<rparr>) \<and>
   main decimal_round4 sample_globals sample_actor_input = Inr (Finished sample_output) \<and>
   in_text sample_actor_input = Some sample_text \<and>
   list_all (\<lambda>e. er_text e = py_slice sample_text (er_start e) (er_end e))
     (out_entities_detected sample_output)"
proof -
  have t: "in_text sample_actor_input = Some sample_text"
    by (simp add: sample_actor_input_def)
  have q: "req_text sample_request = sample_text"
    by (simp add: sample_request_def RedactRequest_of_body_def)
  have n: "redacted_text sample_response \<noteq> sample_text"
    by (simp add: sample_response_def sample_text_def)
  have m: "map er_text (entities_detected sample_response)
     = [''08123456789'', ''john.doe@example.com'']"
    by (simp add: sample_response_def)
  from entity_text_is_slice_of_input
    [of decimal_round4 sample_globals sample_request sample_response
        sample_actor_input sample_output sample_text]
  show ?thesis
    using sample_run sample_main_run t q n m by (simp add: list_all_iff)
qed

text \<open>
  C5. When the mask string is not exactly one character long, the operator dict is the
  literal replace, and the anonymizer is called with it: the redacted text (or the error)
  of the endpoint and of the batch actor is what the anonymizer returns for the replace
  operator.
\<close>

theorem invalid_mask_char_falls_back_to_replace:
  "(length (mask_char request) \<noteq> 1 \<longrightarrow> anonymize request \<longrightarrow>
      analyzer g = Some an \<longrightarrow> anonymizer g = Some anon \<longrightarrow> req_text request \<noteq> [] \<longrightarrow>
      an (req_text request) (entities request) = Inr rs \<longrightarrow>
      operators (mask_char request) = replace_operators \<and>
      map_sum id redacted_text (redact_pii round4 g request)
        = anon (req_text request) rs replace_operators) \<and>
   (in_mask_char actor_in = Some m \<longrightarrow> length m \<noteq> 1 \<longrightarrow>
      in_anonymize actor_in \<noteq> Some False \<longrightarrow>
      analyzer g = Some an \<longrightarrow> anonymizer g = Some anon \<longrightarrow>
      in_text actor_in = Some txt \<longrightarrow> txt \<noteq> [] \<longrightarrow> an txt None = Inr rs' \<longrightarrow>
      main round4 g actor_in =
        (case anon txt rs' replace_operators of
           Inl e \<Rightarrow> Inl e
         | Inr final_text \<Rightarrow>
             Inr (Finished
               \<lparr> out_original_length = length txt, out_redacted_text = final_text,
                 out_entities_detected = structured_entities round4 txt rs',
                 is_success = True \<rparr>)))"
proof (intro conjI impI)
  assume h: "length (mask_char request) \<noteq> 1" "anonymize request"
    "analyzer g = Some an" "anonymizer g = Some anon" "req_text request \<noteq> []"
    "an (req_text request) (entities request) = Inr rs"
  show "operators (mask_char request) = replace_operators"
    using h(1) by (rule operators_replace)
  show "map_sum id redacted_text (redact_pii round4 g request)
        = anon (req_text request) rs replace_operators"
    using h by (simp add: redact_pii_text anonymization_phase_def operators_replace)
next
  assume h: "in_mask_char actor_in = Some m" "length m \<noteq> 1"
    "in_anonymize actor_in \<noteq> Some False"
    "analyzer g = Some an" "anonymizer g = Some anon"
    "in_text actor_in = Some txt" "txt \<noteq> []" "an txt None = Inr rs'"
  have f: "(case in_anonymize actor_in of None \<Rightarrow> True | Some a \<Rightarrow> a)"
    using h(3) by (cases "in_anonymize actor_in") auto
  show "main round4 g actor_in =
        (case anon txt rs' replace_operators of
           Inl e \<Rightarrow> Inl e
         | Inr final_text \<Rightarrow>
             Inr (Finished
               \<lparr> out_original_length = length txt, out_redacted_text = final_text,
                 out_entities_detected = structured_entities round4 txt rs',
                 is_success = True \<rparr>))"
    using h f
    by (simp add: main_run [OF h(4) h(6) h(7) h(8)] anonymization_phase_def
        operators_replace)
qed

theorem invalid_mask_char_falls_back_to_replace_witness:
  "length (mask_char wide_mask_request) \<noteq> 1 \<and> anonymize wide_mask_request \<and>
   operators (mask_char wide_mask_request) = replace_operators \<and>
   map_sum id redacted_text (redact_pii decimal_round4 sample_globals wide_mask_request)
     = Inr ''Contact me at <PII> or <PII>.'' \<and>
   in_mask_char wide_mask_actor_input = Some ''##'' \<and>
   main decimal_round4 sample_globals wide_mask_actor_input =
     Inr (Finished
       \<lparr> out_original_length = 50, out_redacted_text = ''Contact me at <PII> or <PII>.'',
         out_entities_detected = entities_detected sample_response,
         is_success = True \<rparr>)"
proof -
  have q: "req_text wide_mask_request = sample_text" "entities wide_mask_request = None"
    "mask_char wide_mask_request = ''##''" "anonymize wide_mask_request"
    by (simp_all add: wide_mask_request_def sample_request_def RedactRequest_of_body_def)
  have a: "in_mask_char wide_mask_actor_input = Some ''##''"
    "in_anonymize wide_mask_actor_input = None"
    "in_text wide_mask_actor_input = Some sample_text"
    by (simp_all add: wide_mask_actor_input_def)
  have an: "sample_analyzer sample_text None = Inr [phone_span, email_span]"
    by (simp add: sample_analyzer_def)
  have ne: "sample_text \<noteq> []" and len: "length sample_text = 50"
    by (simp_all add: sample_text_def)
  have ents: "structured_entities decimal_round4 sample_text [phone_span, email_span]
     = entities_detected sample_response"
    by (simp add: sample_defs run_defs)
  from invalid_mask_char_falls_back_to_replace
    [of wide_mask_request sample_globals sample_analyzer rewriter_apply
        "[phone_span, email_span]" decimal_round4 wide_mask_actor_input "''##''"
        sample_text "[phone_span, email_span]"]
  show ?thesis
    using q a an ne len ents sample_engines replace_sample by simp
qed

text \<open>
  C6, as amended. On an empty text the endpoint returns the empty response (length 0,
  empty redacted text, no entities) when the analyzer is loaded, and the configuration
  error when it is not; the batch actor returns early and produces no output record.
\<close>

theorem empty_text_short_circuits:
  "(req_text request = [] \<longrightarrow>
      redact_pii round4 g request =
        (if analyzer g = None then Inl missing_model_error else Inr empty_response)) \<and>
   (in_text actor_in = Some [] \<longrightarrow> main round4 g actor_in = Inr EmptyTextProvided)"
  by (auto simp: redact_pii_def main_def missing_model_error_def empty_response_def Let_def
      split: option.splits)

theorem empty_text_short_circuits_witness:
  "req_text empty_request = [] \<and>
   redact_pii decimal_round4 sample_globals empty_request
     = Inr \<lparr> original_length = 0, redacted_text = [], entities_detected = [],
             metadata = [(''status'', MStr ''empty_input'')] \<rparr> \<and>
   in_text empty_actor_input = Some [] \<and>
   main decimal_round4 sample_globals empty_actor_input = Inr EmptyTextProvided"
proof -
  have q: "req_text empty_request = []"
    by (simp add: empty_request_def)
  have a: "in_text empty_actor_input = Some []"
    by (simp add: empty_actor_input_def)
  from empty_text_short_circuits
    [of empty_request decimal_round4 sample_globals empty_actor_input]
  show ?thesis
    using q a sample_engines by (simp add: empty_response_def)
qed

text \<open>
  C6 as stated fails: with the model not loaded the empty text is answered by an error,
  and the batch actor answers it with no entity list and no redacted text at all.
\<close>

theorem empty_text_can_fail_or_give_no_output:
  "redact_pii decimal_round4 failed_globals empty_request
     = Inl (HTTPException 500 ''Server Configuration Error: NLP Model Missing'') \<and>
   main decimal_round4 sample_globals empty_actor_input = Inr EmptyTextProvided"
  by (simp add: redact_pii_def main_def failed_globals_def load_engines_def
      empty_request_def empty_actor_input_def Let_def)

text \<open>
  C7. After a failed initialisation the readiness probe reports that the engine is not
  loaded and the endpoint fails with the explicit configuration error, but the batch
  actor, which has no such guard, calls \<open>analyze\<close> on \<open>None\<close>: an AttributeError.
\<close>

theorem failed_init_actor_null_reference:
  "nlp_engine_loaded (health_check failed_globals) = False \<and>
   redact_pii decimal_round4 failed_globals sample_request
     = Inl (HTTPException 500 ''Server Configuration Error: NLP Model Missing'') \<and>
   main decimal_round4 failed_globals sample_actor_input
     = Inl (AttributeError ''NoneType has no attribute analyze'')"
  by (simp add: health_check_def failed_globals_def load_engines_def redact_pii_def
      main_def sample_actor_input_def sample_text_def Let_def)





text \<open>
  C10. Every response reports as \<open>original_length\<close> the length of the input text,
  whatever the anonymizer returned as redacted text; the output record of the batch
  actor does the same.
\<close>

theorem original_length_is_input_length:
  "(redact_pii round4 g request = Inr resp \<longrightarrow>
      original_length resp = length (req_text request)) \<and>
   (main round4 g actor_in = Inr (Finished out) \<longrightarrow>
      in_text actor_in = Some txt \<longrightarrow> out_original_length out = length txt)"
proof (intro conjI impI)
  assume "redact_pii round4 g request = Inr resp"
  from redact_pii_Inr [OF this]
  show "original_length resp = length (req_text request)"
    by (cases "req_text request = []") auto
next
  assume "main round4 g actor_in = Inr (Finished out)" and "in_text actor_in = Some txt"
  with main_Finished [of round4 g actor_in out]
  show "out_original_length out = length txt"
    by auto
qed

theorem original_length_is_input_length_witness:
  "redact_pii decimal_round4 sample_globals sample_request = Inr sample_response \<and>
   length (req_text sample_request) = 50 \<and>
   original_length sample_response = 50 \<and>
   redacted_text sample_response = ''Contact me at *********** or ********************.'' \<and>
   main decimal_round4 sample_globals sample_actor_input = Inr (Finished sample_output) \<and>
   in_text sample_actor_input = Some sample_text \<and>
   out_original_length sample_output = length sample_text"
proof -
  have t: "in_text sample_actor_input = Some sample_text"
    by (simp add: sample_actor_input_def)
  have n: "length (req_text sample_request) = 50"
    by (simp add: sample_defs)
  have r: "redacted_text sample_response = ''Contact me at *********** or ********************.''"
    by (simp add: sample_response_def)
  from original_length_is_input_length
    [of decimal_round4 sample_globals sample_request sample_response
        sample_actor_input sample_output sample_text]
  show ?thesis
    using sample_run sample_main_run t n r by simp
qed

end
